theory Spec2Isabelle
  imports Main "HOL-Library.AList"
begin

section \<open>Diario App: a shallow embedding of \<^verbatim>\<open>app.py\<close>\<close>

subsection \<open>Python text and cell values\<close>

text \<open>
  A Python \<^verbatim>\<open>str\<close> is a sequence of Unicode code points; it is modelled as the list of
  its code points. \<open>ascii\<close> turns an ASCII literal into that form.
\<close>

type_synonym pystr = "nat list"

definition ascii :: "string \<Rightarrow> pystr" where
  "ascii s = map of_char s"

text \<open>
  \<^verbatim>\<open>str.isspace\<close> of one code point: the code points CPython treats as whitespace.
\<close>

definition is_space :: "nat \<Rightarrow> bool" where
  "is_space c \<longleftrightarrow>
     (9 \<le> c \<and> c \<le> 13) \<or> (28 \<le> c \<and> c \<le> 32) \<or> c = 133 \<or> c = 160 \<or> c = 5760 \<or>
     (8192 \<le> c \<and> c \<le> 8202) \<or> c = 8232 \<or> c = 8233 \<or> c = 8239 \<or> c = 8287 \<or> c = 12288"

text \<open>\<^verbatim>\<open>s.strip()\<close>: whitespace removed at both ends.\<close>

definition strip :: "pystr \<Rightarrow> pystr" where
  "strip s = rev (dropWhile is_space (rev (dropWhile is_space s)))"

text \<open>
  \<^verbatim>\<open>s.lower()\<close> on the letters A to Z. The keyword fragments matched below are ASCII
  and contain no \<open>k\<close>; the only other code points whose lower case yields an ASCII letter
  are the Kelvin sign (to \<open>k\<close>) and the dotted capital I (to \<open>i\<close> followed by a combining
  dot, which no fragment continues), so the matching does not see the difference.
\<close>

definition lower_cp :: "nat \<Rightarrow> nat" where
  "lower_cp c = (if 65 \<le> c \<and> c \<le> 90 then c + 32 else c)"

definition lower :: "pystr \<Rightarrow> pystr" where
  "lower s = map lower_cp s"

text \<open>\<^verbatim>\<open>needle in hay\<close> on strings: \<open>needle\<close> occurs as a contiguous run.\<close>

fun starts_with :: "pystr \<Rightarrow> pystr \<Rightarrow> bool" where
  "starts_with hay [] = True"
| "starts_with [] (n # ns) = False"
| "starts_with (h # hs) (n # ns) = (h = n \<and> starts_with hs ns)"

fun contains :: "pystr \<Rightarrow> pystr \<Rightarrow> bool" where
  "contains [] needle = (needle = [])"
| "contains (h # hs) needle = (starts_with (h # hs) needle \<or> contains hs needle)"

text \<open>
  A cell of a table: text, a whole number, or the missing value NaN that
  \<^verbatim>\<open>pd.read_csv\<close> puts in an empty field. Fractional numbers are not represented.
\<close>

datatype cell = Str pystr | IntV int | NaN

text \<open>\<^verbatim>\<open>str(n)\<close> for an integer: decimal digits, a minus sign when negative.\<close>

fun digits :: "nat \<Rightarrow> pystr" where
  "digits n = (if n < 10 then [48 + n] else digits (n div 10) @ [48 + n mod 10])"

definition str_int :: "int \<Rightarrow> pystr" where
  "str_int i = (if i < 0 then 45 # digits (nat (- i)) else digits (nat i))"

text \<open>\<^verbatim>\<open>str(x)\<close> of a cell.\<close>

fun py_str :: "cell \<Rightarrow> pystr" where
  "py_str (Str s) = s"
| "py_str (IntV i) = str_int i"
| "py_str NaN = ascii ''nan''"

subsection \<open>Scorer\<close>

text \<open>The three status markers, as the source writes them.\<close>

definition mark_done :: pystr where
  "mark_done = [0x2705]"

definition mark_partial :: pystr where
  "mark_partial = [0x26A0, 0xFE0F]"

definition mark_missed :: pystr where
  "mark_missed = [0x274C]"

text \<open>The sidebar's three point values.\<close>

record points =
  points_complete :: int
  points_partial :: int
  points_missed :: int

definition default_points :: points where
  "default_points = \<lparr>points_complete = 10, points_partial = 5, points_missed = 0\<rparr>"

text \<open>
  The lambda applied to the \<^verbatim>\<open>Stato\<close> column:
  \<^verbatim>\<open>points_complete if str(s).strip()=="done" else (points_partial if ... else 0)\<close>.
\<close>

definition scorer :: "points \<Rightarrow> cell \<Rightarrow> int" where
  "scorer cfg s =
     (if strip (py_str s) = mark_done then points_complete cfg
      else if strip (py_str s) = mark_partial then points_partial cfg
      else if strip (py_str s) = mark_missed then points_missed cfg
      else 0)"

subsection \<open>Tables\<close>

text \<open>
  A \<^verbatim>\<open>pandas.DataFrame\<close>: the column labels in order (labels may repeat) and the rows,
  one cell per column.
\<close>

record dataframe =
  columns :: "pystr list"
  rows :: "cell list list"

text \<open>\<^verbatim>\<open>pd.DataFrame()\<close>, the table of a failed load.\<close>

definition empty_frame :: dataframe where
  "empty_frame = \<lparr>columns = [], rows = []\<rparr>"

text \<open>\<^verbatim>\<open>df.empty\<close>: some axis has length zero.\<close>

definition df_empty :: "dataframe \<Rightarrow> bool" where
  "df_empty df \<longleftrightarrow> columns df = [] \<or> rows df = []"

subsection \<open>Normalizer\<close>

definition col_Data :: pystr where "col_Data = ascii ''Data''"
definition col_Giorno :: pystr where "col_Giorno = ascii ''Giorno''"
definition col_Ora :: pystr where "col_Ora = ascii ''Ora''"
definition col_Attivita :: pystr where "col_Attivita = ascii ''Attivit'' @ [0xE0]"
definition col_Materia :: pystr where "col_Materia = ascii ''Materia''"
definition col_Tipo :: pystr where "col_Tipo = ascii ''Tipo''"
definition col_Stato :: pystr where "col_Stato = ascii ''Stato''"
definition col_Punteggio :: pystr where "col_Punteggio = ascii ''Punteggio''"
definition col_Note :: pystr where "col_Note = ascii ''Note''"

definition expected_cols :: "pystr list" where
  "expected_cols = [col_Data, col_Giorno, col_Ora, col_Attivita, col_Materia, col_Tipo,
                    col_Stato, col_Punteggio, col_Note]"

text \<open>
  The \<^verbatim>\<open>if/elif\<close> chain of the loop over the source columns: the canonical name chosen
  for the header \<open>c\<close>, or \<open>None\<close> when no fragment occurs in it.
\<close>

definition canon :: "pystr \<Rightarrow> pystr option" where
  "canon c =
     (let lc = lower (strip c) in
      if contains lc (ascii ''data'') then Some col_Data
      else if contains lc (ascii ''gior'') then Some col_Giorno
      else if contains lc (ascii ''ora'') then Some col_Ora
      else if contains lc (ascii ''attiv'') then Some col_Attivita
      else if contains lc (ascii ''mater'') then Some col_Materia
      else if contains lc (ascii ''tipo'') then Some col_Tipo
      else if contains lc (ascii ''stat'') then Some col_Stato
      else if contains lc (ascii ''punt'') then Some col_Punteggio
      else if contains lc (ascii ''note'') then Some col_Note
      else None)"

text \<open>
  The dictionary \<^verbatim>\<open>col_map\<close>, keyed by source header: an association list in insertion
  order, where storing under a key already present overwrites its value. The loop runs
  over no column at all when the table is empty.
\<close>

definition col_map_step :: "(pystr \<times> pystr) list \<Rightarrow> pystr \<Rightarrow> (pystr \<times> pystr) list" where
  "col_map_step m c = (case canon c of Some n \<Rightarrow> AList.update c n m | None \<Rightarrow> m)"

definition col_map :: "dataframe \<Rightarrow> (pystr \<times> pystr) list" where
  "col_map df = foldl col_map_step [] (if \<not> df_empty df then columns df else [])"

text \<open>\<^verbatim>\<open>df.rename(columns=m)\<close>: every label that is a key of \<open>m\<close> is replaced.\<close>

definition rename :: "(pystr \<times> pystr) list \<Rightarrow> dataframe \<Rightarrow> dataframe" where
  "rename m df =
     df\<lparr>columns := map (\<lambda>c. case map_of m c of Some n \<Rightarrow> n | None \<Rightarrow> c) (columns df)\<rparr>"

text \<open>
  One round of the loop that guarantees the expected columns:
  \<^verbatim>\<open>if c not in df_raw.columns: df_raw[c] = ""\<close> appends a column of empty text.
\<close>

definition ensure_column :: "dataframe \<Rightarrow> pystr \<Rightarrow> dataframe" where
  "ensure_column df c =
     (if c \<notin> set (columns df)
      then df\<lparr>columns := columns df @ [c], rows := map (\<lambda>r. r @ [Str []]) (rows df)\<rparr>
      else df)"

text \<open>The whole normalization section: build the map, rename when it is not empty, fill.\<close>

definition normalizer :: "dataframe \<Rightarrow> dataframe" where
  "normalizer df_raw =
     (let m = col_map df_raw;
          renamed = (if m \<noteq> [] then rename m df_raw else df_raw)
      in foldl ensure_column renamed expected_cols)"

subsection \<open>The session table\<close>

text \<open>
  What the script can raise while it reads the table: a label that is absent, a label
  carried by several columns (the selection is then a frame, and the statements that
  expect a series raise), an ordering of values of different types, and a failed
  \<^verbatim>\<open>list.index\<close>.
\<close>

datatype error = KeyError | DuplicateLabel | TypeError | ValueError

definition positions :: "pystr \<Rightarrow> pystr list \<Rightarrow> nat list" where
  "positions c cs = filter (\<lambda>i. cs ! i = c) [0..<length cs]"

definition cell_of :: "cell list \<Rightarrow> nat \<Rightarrow> cell" where
  "cell_of r i = (if i < length r then r ! i else NaN)"

text \<open>\<^verbatim>\<open>df[c]\<close> used as a series: the cells of the one column labelled \<open>c\<close>.\<close>

definition column :: "dataframe \<Rightarrow> pystr \<Rightarrow> error + cell list" where
  "column df c =
     (case positions c (columns df) of
        [] \<Rightarrow> Inl KeyError
      | [i] \<Rightarrow> Inr (map (\<lambda>r. cell_of r i) (rows df))
      | _ \<Rightarrow> Inl DuplicateLabel)"

text \<open>
  \<^verbatim>\<open>df = df_raw.copy()\<close> gets two derived columns, \<^verbatim>\<open>Punteggio_calcolato\<close> and
  \<^verbatim>\<open>Data_parsed\<close>. Their values are kept as typed lists beside the table (one entry per
  row); \<open>df_columns\<close> is \<^verbatim>\<open>list(df.columns)\<close> once both are set: a label already present
  stays where it is, a new one goes to the end.
\<close>

definition col_Punteggio_calcolato :: pystr where
  "col_Punteggio_calcolato = ascii ''Punteggio_calcolato''"

definition col_Data_parsed :: pystr where
  "col_Data_parsed = ascii ''Data_parsed''"

definition with_label :: "pystr \<Rightarrow> pystr list \<Rightarrow> pystr list" where
  "with_label c cs = (if c \<in> set cs then cs else cs @ [c])"

definition df_columns :: "dataframe \<Rightarrow> pystr list" where
  "df_columns df_raw = with_label col_Data_parsed (with_label col_Punteggio_calcolato (columns df_raw))"

text \<open>\<^verbatim>\<open>df["Punteggio_calcolato"] = df["Stato"].apply(...)\<close>.\<close>

definition punteggio_calcolato :: "points \<Rightarrow> dataframe \<Rightarrow> error + int list" where
  "punteggio_calcolato cfg df_raw =
     (case column df_raw col_Stato of
        Inl e \<Rightarrow> Inl e
      | Inr stato \<Rightarrow> Inr (map (scorer cfg) stato))"

text \<open>The two summary metrics computed from that column.\<close>

definition total_points :: "int list \<Rightarrow> int" where
  "total_points scores = sum_list scores"

definition ore_segnate :: "int list \<Rightarrow> nat" where
  "ore_segnate scores = length (filter (\<lambda>p. 0 < p) scores)"

subsection \<open>Parsed dates and the today view\<close>

text \<open>A calendar date: year, month, day.\<close>

type_synonym date = "nat \<times> nat \<times> nat"

text \<open>
  An entry of \<^verbatim>\<open>pd.to_datetime(...).dt.date\<close>: a date, or NaT for a missing one.
  An entry of \<^verbatim>\<open>Data_parsed\<close>: such a parsed entry, or the raw cell when the
  \<^verbatim>\<open>except\<close> branch copied the \<^verbatim>\<open>Data\<close> column.
\<close>

datatype parsed = Day date | NaT

datatype dcell = Parsed parsed | Raw cell

text \<open>
  \<^verbatim>\<open>pd.to_datetime\<close> on a column. The date parser of pandas is not part of the
  repository: \<open>parse\<close> is a parameter, \<open>None\<close> standing for a value it rejects. With the
  default \<^verbatim>\<open>errors='raise'\<close> one rejected value makes the whole call raise.
\<close>

fun to_datetime :: "(cell \<Rightarrow> parsed option) \<Rightarrow> cell list \<Rightarrow> parsed list option" where
  "to_datetime parse [] = Some []"
| "to_datetime parse (c # cs) =
     (case parse c of
        None \<Rightarrow> None
      | Some p \<Rightarrow> (case to_datetime parse cs of None \<Rightarrow> None | Some ps \<Rightarrow> Some (p # ps)))"

text \<open>
  The \<^verbatim>\<open>try/except\<close> that sets \<^verbatim>\<open>Data_parsed\<close>. A \<^verbatim>\<open>Data\<close> label that does not select
  one series raises in the \<^verbatim>\<open>try\<close> and again in the \<^verbatim>\<open>except\<close> branch.
\<close>

definition data_parsed :: "(cell \<Rightarrow> parsed option) \<Rightarrow> dataframe \<Rightarrow> error + dcell list" where
  "data_parsed parse df =
     (case column df col_Data of
        Inl e \<Rightarrow> Inl e
      | Inr col \<Rightarrow>
          Inr (case to_datetime parse col of
                 Some ps \<Rightarrow> map Parsed ps
               | None \<Rightarrow> map Raw col))"

text \<open>
  \<^verbatim>\<open>oggi_df = df[df["Data_parsed"] == today]\<close>: a raw cell is never equal to a date
  object, NaT neither.
\<close>

definition oggi_df :: "(cell \<Rightarrow> parsed option) \<Rightarrow> date \<Rightarrow> dataframe \<Rightarrow> error + cell list list" where
  "oggi_df parse today df =
     (case data_parsed parse df of
        Inl e \<Rightarrow> Inl e
      | Inr dps \<Rightarrow> Inr (map fst (filter (\<lambda>(r, p). p = Parsed (Day today)) (zip (rows df) dps))))"

subsection \<open>The daily trend view\<close>
















subsection \<open>Exporter\<close>

text \<open>
  A cell of the written sheet. \<^verbatim>\<open>to_excel\<close> writes text as text, a number as a number
  and NaN as a blank; the writer's \<^verbatim>\<open>datetime_format\<close> is a number format for
  datetime-typed values, which the loaded table does not hold.
\<close>

datatype xcell = XText pystr | XNumber int | XBlank

fun to_xcell :: "cell \<Rightarrow> xcell" where
  "to_xcell (Str s) = XText s"
| "to_xcell (IntV i) = XNumber i"
| "to_xcell NaN = XBlank"

record workbook =
  sheets :: "(pystr \<times> xcell list list) list"
  datetime_format :: pystr

text \<open>
  \<^verbatim>\<open>df_raw.to_excel(writer, sheet_name="Sheet1", index=False)\<close>: the header row, then
  the rows. \<^verbatim>\<open>df_raw\<close> is by then the normalized table.
\<close>

definition to_excel :: "dataframe \<Rightarrow> workbook" where
  "to_excel df_raw =
     \<lparr>sheets = [(ascii ''Sheet1'', map XText (columns df_raw) # map (map to_xcell) (rows df_raw))],
      datetime_format = ascii ''yyyy-mm-dd''\<rparr>"

definition exporter :: "dataframe \<Rightarrow> workbook" where
  "exporter raw = to_excel (normalizer raw)"

text \<open>Whether a text has the shape \<^verbatim>\<open>yyyy-mm-dd\<close>.\<close>

definition is_digit :: "nat \<Rightarrow> bool" where
  "is_digit c \<longleftrightarrow> 48 \<le> c \<and> c \<le> 57"

fun is_yyyy_mm_dd :: "pystr \<Rightarrow> bool" where
  "is_yyyy_mm_dd [y1, y2, y3, y4, s1, m1, m2, s2, d1, d2] =
     (is_digit y1 \<and> is_digit y2 \<and> is_digit y3 \<and> is_digit y4 \<and> s1 = 45 \<and>
      is_digit m1 \<and> is_digit m2 \<and> s2 = 45 \<and> is_digit d1 \<and> is_digit d2)"
| "is_yyyy_mm_dd s = False"

subsection \<open>The remote sheet\<close>

text \<open>
  The worksheet behind \<^verbatim>\<open>sh.sheet1\<close> is a grid of cells, row 1 being the header. The
  environment also fixes which remote step fails, with the text of its exception: loading
  and authorizing the credential file, opening the document, reading, writing. \<open>calls\<close>
  logs every request sent.
\<close>

datatype call = Authorize | OpenByKey | GetAllRecords | UpdateCell nat nat cell

record remote =
  grid :: "cell list list"
  auth_error :: "pystr option"
  open_error :: "pystr option"
  read_error :: "pystr option"
  write_error :: "pystr option"
  calls :: "call list"

text \<open>A record of \<^verbatim>\<open>get_all_records\<close> is a dictionary from header to cell.\<close>

type_synonym sheet_record = "(pystr \<times> cell) list"

definition dict_of :: "(pystr \<times> cell) list \<Rightarrow> sheet_record" where
  "dict_of kvs = foldl (\<lambda>d (k, v). AList.update k v d) [] kvs"

text \<open>\<^verbatim>\<open>rec.get(k, d)\<close>.\<close>

definition rec_get :: "sheet_record \<Rightarrow> pystr \<Rightarrow> cell \<Rightarrow> cell" where
  "rec_get r k d = (case map_of r k of Some v \<Rightarrow> v | None \<Rightarrow> d)"

text \<open>
  The records of a grid: one per row below the header, short rows filled with empty text.
\<close>

definition records_of :: "cell list list \<Rightarrow> sheet_record list" where
  "records_of g =
     (case g of
        [] \<Rightarrow> []
      | h # body \<Rightarrow>
          map (\<lambda>r. dict_of (zip (map py_str h) (r @ replicate (length h - length r) (Str [])))) body)"


text \<open>
  The effect of \<^verbatim>\<open>ws.update_cell(r, c, v)\<close> on the grid: the one cell is set, the grid
  growing by blank cells when the cell lies beyond the stored ones.
\<close>

definition set_grid_cell :: "cell list list \<Rightarrow> nat \<Rightarrow> nat \<Rightarrow> cell \<Rightarrow> cell list list" where
  "set_grid_cell g r c v =
     (if r = 0 \<or> c = 0 then g
      else let g1 = g @ replicate (r - length g) [];
               row = g1 ! (r - 1);
               row1 = row @ replicate (c - length row) (Str [])
           in g1[r - 1 := row1[c - 1 := v]])"

text \<open>
  The four remote steps. Each logs its request and either raises (\<open>Inl\<close> with the text
  of the exception) or returns.
\<close>

definition authorize :: "remote \<Rightarrow> (pystr + unit) \<times> remote" where
  "authorize rm =
     ((case auth_error rm of Some e \<Rightarrow> Inl e | None \<Rightarrow> Inr ()),
      rm\<lparr>calls := calls rm @ [Authorize]\<rparr>)"

definition open_by_key :: "remote \<Rightarrow> (pystr + unit) \<times> remote" where
  "open_by_key rm =
     ((case open_error rm of Some e \<Rightarrow> Inl e | None \<Rightarrow> Inr ()),
      rm\<lparr>calls := calls rm @ [OpenByKey]\<rparr>)"

definition get_all_records :: "remote \<Rightarrow> (pystr + sheet_record list) \<times> remote" where
  "get_all_records rm =
     ((case read_error rm of Some e \<Rightarrow> Inl e | None \<Rightarrow> Inr (records_of (grid rm))),
      rm\<lparr>calls := calls rm @ [GetAllRecords]\<rparr>)"

definition update_cell :: "nat \<Rightarrow> nat \<Rightarrow> cell \<Rightarrow> remote \<Rightarrow> (pystr + unit) \<times> remote" where
  "update_cell r c v rm =
     (case write_error rm of
        Some e \<Rightarrow> (Inl e, rm\<lparr>calls := calls rm @ [UpdateCell r c v]\<rparr>)
      | None \<Rightarrow> (Inr (), rm\<lparr>grid := set_grid_cell (grid rm) r c v,
                              calls := calls rm @ [UpdateCell r c v]\<rparr>))"

text \<open>
  \<^verbatim>\<open>get_gspread_service\<close>: raises at once when the client library was not imported,
  otherwise loads the credential file and authorizes.
\<close>

definition msg_gspread :: pystr where
  "msg_gspread = ascii ''gspread non installato o import fallito.''"

definition get_gspread_service :: "bool \<Rightarrow> remote \<Rightarrow> (pystr + unit) \<times> remote" where
  "get_gspread_service gs_available rm =
     (if \<not> gs_available then (Inl msg_gspread, rm) else authorize rm)"

subsection \<open>Data Loader\<close>

text \<open>What the page shows the user: \<^verbatim>\<open>st.error\<close>, \<^verbatim>\<open>st.info\<close>, \<^verbatim>\<open>st.warning\<close>, \<^verbatim>\<open>st.success\<close>.\<close>

datatype message = Error pystr | Info pystr | Warning pystr | Success pystr

datatype mode = READ_ONLY | FULL_RW

text \<open>
  \<^verbatim>\<open>pd.DataFrame(data)\<close> for the records of one sheet, which share their keys: the keys
  become the columns; no record, no column.
\<close>

definition frame_of_records :: "sheet_record list \<Rightarrow> dataframe" where
  "frame_of_records recs =
     (case recs of
        [] \<Rightarrow> empty_frame
      | r0 # _ \<Rightarrow>
          \<lparr>columns = map fst r0,
           rows = map (\<lambda>r. map (\<lambda>k. rec_get r k NaN) (map fst r0)) recs\<rparr>)"

text \<open>
  \<^verbatim>\<open>read_sheet_csv\<close>: the parsed export, or an error message and the empty table. The
  fetch is given by its outcome.
\<close>

definition read_sheet_csv :: "pystr + dataframe \<Rightarrow> dataframe \<times> message list" where
  "read_sheet_csv fetched =
     (case fetched of
        Inl e \<Rightarrow> (empty_frame, [Error (ascii ''Errore nel leggere il foglio via CSV: '' @ e)])
      | Inr df \<Rightarrow> (df, []))"

definition msg_auth :: pystr where
  "msg_auth = ascii ''Errore autenticazione Google: ''"

definition msg_carica :: pystr where
  "msg_carica = ascii ''Carica il JSON per abilitare scrittura. In alternativa puoi usare la modalit''
                @ [0xE0] @ ascii '' READ_ONLY.''"

text \<open>
  The \<^verbatim>\<open>FULL_RW\<close> branch of the load. \<open>gsa_file\<close> is the uploaded credential file, if any;
  whatever the \<^verbatim>\<open>try\<close> block raises is reported under the same heading.
\<close>

definition load_full_rw :: "bool \<Rightarrow> pystr option \<Rightarrow> remote \<Rightarrow> dataframe \<times> message list \<times> remote" where
  "load_full_rw gs_available gsa_file rm =
     (case gsa_file of
        None \<Rightarrow> (empty_frame, [Info msg_carica], rm)
      | Some json \<Rightarrow>
          (case get_gspread_service gs_available rm of
             (Inl e, rm1) \<Rightarrow> (empty_frame, [Error (msg_auth @ e)], rm1)
           | (Inr u, rm1) \<Rightarrow>
               (case open_by_key rm1 of
                  (Inl e, rm2) \<Rightarrow> (empty_frame, [Error (msg_auth @ e)], rm2)
                | (Inr u, rm2) \<Rightarrow>
                    (case get_all_records rm2 of
                       (Inl e, rm3) \<Rightarrow> (empty_frame, [Error (msg_auth @ e)], rm3)
                     | (Inr data, rm3) \<Rightarrow> (frame_of_records data, [], rm3)))))"

definition load_data :: "mode \<Rightarrow> pystr + dataframe \<Rightarrow> bool \<Rightarrow> pystr option \<Rightarrow> remote
    \<Rightarrow> dataframe \<times> message list \<times> remote" where
  "load_data m fetched gs_available gsa_file rm =
     (if m = READ_ONLY
      then (case read_sheet_csv fetched of (df, msgs) \<Rightarrow> (df, msgs, rm))
      else load_full_rw gs_available gsa_file rm)"

subsection \<open>Writer\<close>

text \<open>
  The test of the scan, with the key already converted to text:
  \<^verbatim>\<open>str(rec.get('Data','')) == str(row['Data']) and str(rec.get('Ora','')) == str(row['Ora'])\<close>.
\<close>

definition key_matches :: "pystr \<Rightarrow> pystr \<Rightarrow> sheet_record \<Rightarrow> bool" where
  "key_matches d t rec \<longleftrightarrow>
     py_str (rec_get rec col_Data (Str [])) = d \<and> py_str (rec_get rec col_Ora (Str [])) = t"

text \<open>
  The scan \<^verbatim>\<open>for r_idx, rec in enumerate(all_values, start=2)\<close>: the sheet row of the
  first record that passes the test, \<open>None\<close> when the loop runs to its \<^verbatim>\<open>else\<close>.
\<close>

fun find_row :: "pystr \<Rightarrow> pystr \<Rightarrow> sheet_record list \<Rightarrow> nat \<Rightarrow> nat option" where
  "find_row d t [] r_idx = None"
| "find_row d t (rec # recs) r_idx =
     (if key_matches d t rec then Some r_idx else find_row d t recs (Suc r_idx))"

text \<open>\<^verbatim>\<open>xs.index(c)\<close>: the first position of \<open>c\<close>; \<open>None\<close> where Python raises.\<close>

fun list_index :: "pystr \<Rightarrow> pystr list \<Rightarrow> nat option" where
  "list_index c [] = None"
| "list_index c (x # xs) = (if x = c then Some 0 else map_option Suc (list_index c xs))"

definition msg_write :: pystr where
  "msg_write = ascii ''Errore scrittura Google: ''"

definition msg_not_in_list :: pystr where
  "msg_not_in_list = 39 # ascii ''Stato'' @ 39 # ascii '' is not in list''"

definition msg_aggiornato :: pystr where
  "msg_aggiornato = mark_done @ ascii '' Stato aggiornato su Google Sheet''"

definition msg_non_trovato :: pystr where
  "msg_non_trovato = ascii ''Non ho trovato la riga corrispondente per aggiornare.''"

definition msg_attiva :: pystr where
  "msg_attiva = ascii ''Per salvare su Google Sheet attiva FULL_RW e carica il JSON service account nella sidebar.''"

text \<open>
  The \<^verbatim>\<open>try\<close> block of the save handler. \<open>cols\<close> is \<^verbatim>\<open>list(df.columns)\<close> of the local
  table, \<open>row_data\<close> and \<open>row_ora\<close> are \<^verbatim>\<open>row['Data']\<close> and \<^verbatim>\<open>row['Ora']\<close> of the card,
  \<open>new_state\<close> the selector's value. Every exception ends in one error message.
\<close>

definition writer :: "bool \<Rightarrow> remote \<Rightarrow> pystr list \<Rightarrow> cell \<Rightarrow> cell \<Rightarrow> pystr \<Rightarrow> message list \<times> remote" where
  "writer gs_available rm cols row_data row_ora new_state =
     (case get_gspread_service gs_available rm of
        (Inl e, rm1) \<Rightarrow> ([Error (msg_write @ e)], rm1)
      | (Inr u, rm1) \<Rightarrow>
          (case open_by_key rm1 of
             (Inl e, rm2) \<Rightarrow> ([Error (msg_write @ e)], rm2)
           | (Inr u, rm2) \<Rightarrow>
               (case get_all_records rm2 of
                  (Inl e, rm3) \<Rightarrow> ([Error (msg_write @ e)], rm3)
                | (Inr all_values, rm3) \<Rightarrow>
                    (case find_row (py_str row_data) (py_str row_ora) all_values 2 of
                       None \<Rightarrow> ([Warning msg_non_trovato], rm3)
                     | Some r_idx \<Rightarrow>
                         (case list_index col_Stato cols of
                            None \<Rightarrow> ([Error (msg_write @ msg_not_in_list)], rm3)
                          | Some j \<Rightarrow>
                              (case update_cell r_idx (j + 1) (Str new_state) rm3 of
                                 (Inl e, rm4) \<Rightarrow> ([Error (msg_write @ e)], rm4)
                               | (Inr u, rm4) \<Rightarrow> ([Success msg_aggiornato], rm4)))))))"

text \<open>
  The handler of the \<^verbatim>\<open>Salva\<close> button: the write is tried only in \<^verbatim>\<open>FULL_RW\<close> mode, with
  the client library imported and the credential file on disk.
\<close>

definition save_action :: "mode \<Rightarrow> bool \<Rightarrow> bool \<Rightarrow> remote \<Rightarrow> pystr list \<Rightarrow> cell \<Rightarrow> cell \<Rightarrow> pystr
    \<Rightarrow> message list \<times> remote" where
  "save_action m gs_available credential_on_disk rm cols row_data row_ora new_state =
     (if m = FULL_RW \<and> gs_available \<and> credential_on_disk
      then writer gs_available rm cols row_data row_ora new_state
      else ([Warning msg_attiva], rm))"

subsection \<open>The card of a today row\<close>



text \<open>
  \<^verbatim>\<open>state = row['Stato'] if row['Stato'] else ""\<close> is computed and not used;
  \<^verbatim>\<open>new_state\<close> comes from the selector alone.
\<close>

fun truthy :: "cell \<Rightarrow> bool" where
  "truthy (Str s) = (s \<noteq> [])"
| "truthy (IntV i) = (i \<noteq> 0)"
| "truthy NaN = True"

definition card_state :: "cell \<Rightarrow> cell" where
  "card_state row_stato = (if truthy row_stato then row_stato else Str [])"



text \<open>
  A date parser for the examples below: it reads text of the shape \<^verbatim>\<open>yyyy-mm-dd\<close>,
  takes empty text and NaN as a missing date, and rejects everything else.
\<close>

definition digit_val :: "nat \<Rightarrow> nat" where
  "digit_val c = c - 48"

definition iso_parse :: "cell \<Rightarrow> parsed option" where
  "iso_parse c =
     (case c of
        NaN \<Rightarrow> Some NaT
      | IntV i \<Rightarrow> None
      | Str s \<Rightarrow>
          (if s = [] then Some NaT
           else if is_yyyy_mm_dd s
           then Some (Day (1000 * digit_val (s ! 0) + 100 * digit_val (s ! 1)
                             + 10 * digit_val (s ! 2) + digit_val (s ! 3),
                           10 * digit_val (s ! 5) + digit_val (s ! 6),
                           10 * digit_val (s ! 8) + digit_val (s ! 9)))
           else None))"

subsection \<open>Notions used in the statements\<close>

text \<open>The label a source header ends up with when the renaming applies to it.\<close>

definition canon_name :: "pystr \<Rightarrow> pystr" where
  "canon_name c = (case canon c of Some n \<Rightarrow> n | None \<Rightarrow> c)"

text \<open>
  The labels after the renaming step (no header is renamed in an empty table), and the
  expected columns that are then still absent.
\<close>

definition renamed_columns :: "dataframe \<Rightarrow> pystr list" where
  "renamed_columns df = (if df_empty df then columns df else map canon_name (columns df))"

definition missing_cols :: "dataframe \<Rightarrow> pystr list" where
  "missing_cols df = filter (\<lambda>c. c \<notin> set (renamed_columns df)) expected_cols"

text \<open>Every row has one cell per column.\<close>

definition well_formed :: "dataframe \<Rightarrow> bool" where
  "well_formed df \<longleftrightarrow> list_all (\<lambda>r. length r = length (columns df)) (rows df)"

text \<open>
  For a key and the records of the sheet: whether some record passes the test of the
  scan, and the position (from 0) of the first one that does.
\<close>

definition first_match :: "pystr \<Rightarrow> pystr \<Rightarrow> sheet_record list \<Rightarrow> nat" where
  "first_match d t recs = length (takeWhile (\<lambda>r. \<not> key_matches d t r) recs)"

definition some_match :: "pystr \<Rightarrow> pystr \<Rightarrow> sheet_record list \<Rightarrow> bool" where
  "some_match d t recs \<longleftrightarrow> list_ex (key_matches d t) recs"

text \<open>No remote step fails.\<close>

definition transport_ok :: "remote \<Rightarrow> bool" where
  "transport_ok rm \<longleftrightarrow>
     auth_error rm = None \<and> open_error rm = None \<and> read_error rm = None \<and> write_error rm = None"

text \<open>A remote sheet for the examples: three records, two of them with the same key.\<close>

definition sample_remote :: remote where
  "sample_remote =
     \<lparr>grid = [[Str col_Data, Str col_Ora, Str col_Stato],
              [Str (ascii ''2026-11-03''), Str (ascii ''09:00''), Str mark_missed],
              [Str (ascii ''2026-11-04''), Str (ascii ''09:00''), Str mark_done],
              [Str (ascii ''2026-11-04''), Str (ascii ''09:00''), Str mark_partial]],
      auth_error = None, open_error = None, read_error = None, write_error = None,
      calls = []\<rparr>"

text \<open>The columns of the local table when it was loaded from that sheet.\<close>

definition sample_cols :: "pystr list" where
  "sample_cols = df_columns (normalizer (frame_of_records (records_of (grid sample_remote))))"







text \<open>
  Two tables for the examples: one whose dates all parse (the last one is missing), one
  with a date text that does not parse.
\<close>

definition sample_df :: dataframe where
  "sample_df =
     \<lparr>columns = [col_Data, col_Stato],
      rows = [[Str (ascii ''2026-11-04''), Str mark_done],
              [Str (ascii ''2026-11-03''), Str mark_partial],
              [Str (ascii ''2026-11-04''), Str mark_done],
              [Str [], Str mark_missed]]\<rparr>"

definition sample_df_text :: dataframe where
  "sample_df_text =
     \<lparr>columns = [col_Data, col_Stato],
      rows = [[Str (ascii ''2026-11-04''), Str mark_done],
              [Str (ascii ''boh''), Str mark_partial]]\<rparr>"

text \<open>
  The text of the exception the \<^verbatim>\<open>try\<close> block of the \<^verbatim>\<open>FULL_RW\<close> load ends with, if any:
  the first step that fails.
\<close>

definition load_exception :: "bool \<Rightarrow> remote \<Rightarrow> pystr option" where
  "load_exception gs_available rm =
     (if \<not> gs_available then Some msg_gspread
      else case auth_error rm of
             Some e \<Rightarrow> Some e
           | None \<Rightarrow> (case open_error rm of Some e \<Rightarrow> Some e | None \<Rightarrow> read_error rm))"

text \<open>A raw table for the export example: two columns, a date written day first.\<close>

definition sample_raw :: dataframe where
  "sample_raw =
     \<lparr>columns = [ascii ''Ora'', ascii ''Data''],
      rows = [[Str (ascii ''09:00''), Str (ascii ''03/11/2026'')]]\<rparr>"

section \<open>Properties\<close>

subsection \<open>Scorer\<close>

lemma strip_markers:
  "strip mark_done = mark_done" "strip mark_partial = mark_partial"
  "strip mark_missed = mark_missed" "strip [] = []" "strip (ascii ''nan'') = ascii ''nan''"
  by (simp_all add: strip_def is_space_def mark_done_def mark_partial_def mark_missed_def ascii_def)

lemma markers_distinct:
  "mark_done \<noteq> mark_partial" "mark_done \<noteq> mark_missed" "mark_partial \<noteq> mark_missed"
  "mark_done \<noteq> []" "mark_partial \<noteq> []" "mark_missed \<noteq> []"
  "ascii ''nan'' \<noteq> mark_done" "ascii ''nan'' \<noteq> mark_partial" "ascii ''nan'' \<noteq> mark_missed"
  by (simp_all add: mark_done_def mark_partial_def mark_missed_def ascii_def)

text \<open>
  C1, as amended. The score depends on the status converted to text and stripped of
  surrounding whitespace: it is \<open>points_complete\<close> when that text is the done marker,
  \<open>points_partial\<close> for the partial marker, \<open>points_missed\<close> for the missed marker and
  \<open>0\<close> otherwise; in particular the three bare markers give their points, empty text
  and a missing value give \<open>0\<close>. \<open>scorer\<close> is a function of its two arguments, so it
  returns on every input and returns the same integer for the same inputs.
\<close>

theorem scorer_stripped_markers:
  "scorer cfg s =
     (if strip (py_str s) = mark_done then points_complete cfg
      else if strip (py_str s) = mark_partial then points_partial cfg
      else if strip (py_str s) = mark_missed then points_missed cfg
      else 0)
   \<and> scorer cfg (Str mark_done) = points_complete cfg
   \<and> scorer cfg (Str mark_partial) = points_partial cfg
   \<and> scorer cfg (Str mark_missed) = points_missed cfg
   \<and> scorer cfg (Str []) = 0
   \<and> scorer cfg NaN = 0"
  using markers_distinct by (simp add: scorer_def strip_markers)

text \<open>
  C1 as stated fails: a status that is none of the three markers, the done marker after
  a space, scores \<open>points_complete\<close> (10 by default) and not \<open>0\<close>.
\<close>

theorem scorer_padded_marker_counterexample:
  "Str (32 # mark_done) \<noteq> Str mark_done \<and> Str (32 # mark_done) \<noteq> Str mark_partial
   \<and> Str (32 # mark_done) \<noteq> Str mark_missed
   \<and> scorer default_points (Str (32 # mark_done)) = 10"
  by (simp add: scorer_def strip_def is_space_def mark_done_def mark_partial_def
      mark_missed_def default_points_def)

subsection \<open>Normalizer\<close>

lemma map_of_col_map_step:
  "map_of (col_map_step m x) c =
     (if c = x then (case canon x of Some n \<Rightarrow> Some n | None \<Rightarrow> map_of m c) else map_of m c)"
  by (simp add: col_map_step_def update_conv' split: option.splits)

lemma map_of_col_map_loop:
  "map_of (foldl col_map_step m cs) c =
     (if c \<in> set cs then (case canon c of Some n \<Rightarrow> Some n | None \<Rightarrow> map_of m c) else map_of m c)"
proof (induction cs arbitrary: m)
  case Nil
  then show ?case by simp
next
  case (Cons x xs)
  show ?case
    using Cons.IH [of "col_map_step m x"]
    by (simp add: map_of_col_map_step split: option.splits)
qed

lemma expected_cols_distinct: "distinct expected_cols"
  by (simp add: expected_cols_def col_Data_def col_Giorno_def col_Ora_def col_Attivita_def
      col_Materia_def col_Tipo_def col_Stato_def col_Punteggio_def col_Note_def ascii_def)

lemma columns_renamed:
  "columns (if col_map df \<noteq> [] then rename (col_map df) df else df) = renamed_columns df"
proof (cases "df_empty df")
  case True
  then show ?thesis by (simp add: col_map_def renamed_columns_def)
next
  case False
  let ?m = "col_map df"
  have look: "map_of ?m c = canon c" if "c \<in> set (columns df)" for c
    using that False by (simp add: col_map_def map_of_col_map_loop split: option.splits)
  show ?thesis
  proof (cases "?m = []")
    case True
    then have "canon c = None" if "c \<in> set (columns df)" for c
      using look [OF that] by simp
    then have "map canon_name (columns df) = columns df"
      by (simp add: canon_name_def map_idI)
    with True False show ?thesis by (simp add: renamed_columns_def)
  next
    case nonempty: False
    have "map (\<lambda>c. case map_of ?m c of Some n \<Rightarrow> n | None \<Rightarrow> c) (columns df)
          = map canon_name (columns df)"
      by (rule map_cong) (simp_all add: look canon_name_def)
    with nonempty False show ?thesis by (simp add: renamed_columns_def rename_def)
  qed
qed

lemma rows_renamed:
  "rows (if col_map df \<noteq> [] then rename (col_map df) df else df) = rows df"
  by (simp add: rename_def)

lemma filter_fresh:
  "x \<notin> set xs \<Longrightarrow> filter (\<lambda>c. c \<noteq> x \<and> P c) xs = filter P xs"
  by (induction xs) auto

lemma columns_ensure:
  "distinct cs \<Longrightarrow>
   columns (foldl ensure_column d cs) = columns d @ filter (\<lambda>c. c \<notin> set (columns d)) cs"
proof (induction cs arbitrary: d)
  case Nil
  then show ?case by simp
next
  case (Cons x xs)
  then have x: "x \<notin> set xs" and d: "distinct xs" by simp_all
  show ?case
  proof (cases "x \<in> set (columns d)")
    case True
    then show ?thesis using Cons.IH [OF d] by (simp add: ensure_column_def)
  next
    case False
    then have "columns (ensure_column d x) = columns d @ [x]"
      by (simp add: ensure_column_def)
    then show ?thesis
      using False Cons.IH [OF d, of "ensure_column d x"] by (simp add: filter_fresh [OF x])
  qed
qed

lemma rows_ensure:
  "distinct cs \<Longrightarrow>
   rows (foldl ensure_column d cs) =
     map (\<lambda>r. r @ replicate (length (filter (\<lambda>c. c \<notin> set (columns d)) cs)) (Str [])) (rows d)"
proof (induction cs arbitrary: d)
  case Nil
  then show ?case by simp
next
  case (Cons x xs)
  then have x: "x \<notin> set xs" and d: "distinct xs" by simp_all
  show ?case
  proof (cases "x \<in> set (columns d)")
    case True
    then show ?thesis using Cons.IH [OF d] by (simp add: ensure_column_def)
  next
    case False
    then have "columns (ensure_column d x) = columns d @ [x]"
      and "rows (ensure_column d x) = map (\<lambda>r. r @ [Str []]) (rows d)"
      by (simp_all add: ensure_column_def)
    then show ?thesis
      using False Cons.IH [OF d, of "ensure_column d x"]
      by (simp add: filter_fresh [OF x] replicate_append_same)
  qed
qed

lemma normalizer_columns_eq: "columns (normalizer df) = renamed_columns df @ missing_cols df"
  by (simp add: normalizer_def Let_def columns_ensure [OF expected_cols_distinct] columns_renamed
      missing_cols_def del: foldl_Cons)

lemma normalizer_rows_eq:
  "rows (normalizer df) = map (\<lambda>r. r @ replicate (length (missing_cols df)) (Str [])) (rows df)"
  by (simp add: normalizer_def Let_def rows_ensure [OF expected_cols_distinct] columns_renamed
      rows_renamed missing_cols_def del: foldl_Cons)

text \<open>
  C2, as amended. For every raw table the normalized table keeps every source column,
  in source order, under the name the renaming gives it (its canonical name when a
  fragment matches and the table is not empty, its own name otherwise), followed by the
  canonical fields that no column carries after the renaming, each filled with empty
  text; so all nine canonical fields are present.
\<close>

theorem normalizer_adds_missing_columns:
  "columns (normalizer df) = renamed_columns df @ missing_cols df
   \<and> rows (normalizer df) = map (\<lambda>r. r @ replicate (length (missing_cols df)) (Str [])) (rows df)
   \<and> set expected_cols \<subseteq> set (columns (normalizer df))"
  by (auto simp: normalizer_columns_eq normalizer_rows_eq missing_cols_def)

text \<open>
  C2 as stated fails: a source column that matches no fragment stays in the table, which
  then has ten fields.
\<close>

theorem normalizer_keeps_unmatched_counterexample:
  "columns (normalizer \<lparr>columns = [ascii ''Foo''], rows = [[Str (ascii ''x'')]]\<rparr>)
     = ascii ''Foo'' # expected_cols
   \<and> ascii ''Foo'' \<notin> set expected_cols"
  by (simp add: normalizer_columns_eq renamed_columns_def missing_cols_def df_empty_def
      canon_name_def canon_def lower_def lower_cp_def strip_def is_space_def
      expected_cols_def col_Data_def col_Giorno_def col_Ora_def col_Attivita_def
      col_Materia_def col_Tipo_def col_Stato_def col_Punteggio_def col_Note_def ascii_def)

lemma cell_of_append: "i < length r \<Longrightarrow> cell_of (r @ p) i = cell_of r i"
  by (simp add: cell_of_def nth_append)

lemma positions_two:
  assumes "i < j" and "j < length cs" and "cs ! i = n" and "cs ! j = n"
  shows "\<exists>a b rest. positions n cs = a # b # rest"
proof -
  let ?ps = "positions n cs"
  have "distinct ?ps" by (simp add: positions_def)
  then have "length ?ps = card (set ?ps)" by (simp add: distinct_card)
  moreover have "{i, j} \<subseteq> set ?ps" using assms by (auto simp: positions_def)
  then have "card {i, j} \<le> card (set ?ps)" by (intro card_mono) simp_all
  moreover have "card {i, j} = 2" using assms(1) by simp
  ultimately have "2 \<le> length ?ps" by simp
  then show ?thesis by (cases ?ps; cases "tl ?ps") auto
qed

lemma column_duplicate:
  assumes "i < j" and "j < length (columns df)" and "columns df ! i = n" and "columns df ! j = n"
  shows "column df n = Inl DuplicateLabel"
proof -
  obtain a b rest where "positions n (columns df) = a # b # rest"
    using positions_two [OF assms] by blast
  then show ?thesis by (simp add: column_def)
qed

text \<open>
  C3, as amended. When two source columns of a non-empty table match the same fragment,
  both are renamed to the same canonical name: the normalized table has that name at
  both positions, each column keeps its own cells, and the name no longer selects a
  single column.
\<close>

theorem normalizer_duplicate_match:
  assumes "\<not> df_empty df" and "well_formed df"
    and "i < j" and "j < length (columns df)"
    and "canon (columns df ! i) = Some n" and "canon (columns df ! j) = Some n"
  shows "columns (normalizer df) ! i = n \<and> columns (normalizer df) ! j = n
         \<and> column (normalizer df) n = Inl DuplicateLabel
         \<and> map (\<lambda>r. cell_of r i) (rows (normalizer df)) = map (\<lambda>r. cell_of r i) (rows df)
         \<and> map (\<lambda>r. cell_of r j) (rows (normalizer df)) = map (\<lambda>r. cell_of r j) (rows df)"
proof -
  let ?cs = "columns df"
  have i: "i < length ?cs" using assms(3,4) by simp
  have ren: "renamed_columns df = map canon_name ?cs"
    using assms(1) by (simp add: renamed_columns_def)
  have ci: "columns (normalizer df) ! i = n"
    using i assms(5) by (simp add: normalizer_columns_eq ren nth_append canon_name_def)
  have cj: "columns (normalizer df) ! j = n"
    using assms(4,6) by (simp add: normalizer_columns_eq ren nth_append canon_name_def)
  have len: "j < length (columns (normalizer df))"
    using assms(4) by (simp add: normalizer_columns_eq ren)
  have dup: "column (normalizer df) n = Inl DuplicateLabel"
    using column_duplicate [OF assms(3) len ci cj] .
  have wf: "length r = length ?cs" if "r \<in> set (rows df)" for r
    using assms(2) that by (simp add: well_formed_def list_all_iff)
  have keep: "map (\<lambda>r. cell_of r k) (rows (normalizer df)) = map (\<lambda>r. cell_of r k) (rows df)"
    if "k < length ?cs" for k
    using that wf by (simp add: normalizer_rows_eq cell_of_append)
  show ?thesis
    using ci cj dup keep [OF i] keep [OF assms(4)] by simp
qed

text \<open>
  C3, witness: the headers \<^verbatim>\<open>data1\<close> and \<^verbatim>\<open>DATA 2\<close>.
\<close>

theorem normalizer_duplicate_match_witness:
  "(let df = \<lparr>columns = [ascii ''data1'', ascii ''DATA 2''],
               rows = [[Str (ascii ''x''), Str (ascii ''y'')]]\<rparr>
    in \<not> df_empty df \<and> well_formed df \<and> canon (columns df ! 0) = Some col_Data
       \<and> canon (columns df ! 1) = Some col_Data
       \<and> columns (normalizer df) ! 0 = col_Data \<and> columns (normalizer df) ! 1 = col_Data
       \<and> column (normalizer df) col_Data = Inl DuplicateLabel
       \<and> map (\<lambda>r. cell_of r 0) (rows (normalizer df)) = [Str (ascii ''x'')]
       \<and> map (\<lambda>r. cell_of r 1) (rows (normalizer df)) = [Str (ascii ''y'')])"
proof -
  let ?df = "\<lparr>columns = [ascii ''data1'', ascii ''DATA 2''],
               rows = [[Str (ascii ''x''), Str (ascii ''y'')]]\<rparr>"
  have a: "\<not> df_empty ?df" by (simp add: df_empty_def)
  have b: "well_formed ?df" by (simp add: well_formed_def)
  have c: "canon (columns ?df ! 0) = Some col_Data"
    by (simp add: canon_def lower_def lower_cp_def strip_def is_space_def ascii_def)
  have d: "canon (columns ?df ! 1) = Some col_Data"
    by (simp add: canon_def lower_def lower_cp_def strip_def is_space_def ascii_def)
  have e: "(0::nat) < 1" and f: "1 < length (columns ?df)" by simp_all
  show ?thesis
    using a b c d normalizer_duplicate_match [OF a b e f c d]
    by (simp add: cell_of_def)
qed

text \<open>
  C3 as stated fails: with the headers \<^verbatim>\<open>data1\<close> and \<^verbatim>\<open>DATA 2\<close> the normalized
  table has two columns named \<^verbatim>\<open>Data\<close>, the first still carrying the earlier column's
  cell; nothing is overwritten.
\<close>

theorem normalizer_duplicate_match_counterexample:
  "columns (normalizer \<lparr>columns = [ascii ''data1'', ascii ''DATA 2''],
                        rows = [[Str (ascii ''x''), Str (ascii ''y'')]]\<rparr>)
     = col_Data # col_Data # tl expected_cols
   \<and> map (take 2) (rows (normalizer \<lparr>columns = [ascii ''data1'', ascii ''DATA 2''],
                        rows = [[Str (ascii ''x''), Str (ascii ''y'')]]\<rparr>))
     = [[Str (ascii ''x''), Str (ascii ''y'')]]"
  by (simp add: normalizer_columns_eq normalizer_rows_eq renamed_columns_def missing_cols_def df_empty_def
      canon_name_def canon_def lower_def lower_cp_def strip_def is_space_def
      expected_cols_def col_Data_def col_Giorno_def col_Ora_def col_Attivita_def
      col_Materia_def col_Tipo_def col_Stato_def col_Punteggio_def col_Note_def ascii_def)

subsection \<open>Writer\<close>

lemma find_row_eq:
  "find_row d t recs k = (if some_match d t recs then Some (k + first_match d t recs) else None)"
  by (induction recs arbitrary: k) (simp_all add: some_match_def first_match_def)








lemma writer_not_found:
  assumes "auth_error rm = None" and "open_error rm = None" and "read_error rm = None"
    and "\<not> some_match (py_str row_data) (py_str row_ora) (records_of (grid rm))"
  shows "writer True rm cols row_data row_ora new_state =
           ([Warning msg_non_trovato], rm\<lparr>calls := calls rm @ [Authorize, OpenByKey, GetAllRecords]\<rparr>)"
  using assms
  by (simp add: writer_def get_gspread_service_def authorize_def open_by_key_def
      get_all_records_def find_row_eq)

lemma writer_library_missing:
  "writer False rm cols row_data row_ora new_state =
     ([Error (msg_write @ msg_gspread)], rm)"
  by (simp add: writer_def get_gspread_service_def)

lemma writer_auth_fails:
  "auth_error rm = Some e \<Longrightarrow>
   writer True rm cols row_data row_ora new_state =
     ([Error (msg_write @ e)], rm\<lparr>calls := calls rm @ [Authorize]\<rparr>)"
  by (simp add: writer_def get_gspread_service_def authorize_def)

lemma writer_open_fails:
  "auth_error rm = None \<Longrightarrow> open_error rm = Some e \<Longrightarrow>
   writer True rm cols row_data row_ora new_state =
     ([Error (msg_write @ e)], rm\<lparr>calls := calls rm @ [Authorize, OpenByKey]\<rparr>)"
  by (simp add: writer_def get_gspread_service_def authorize_def open_by_key_def)

lemma writer_read_fails:
  "auth_error rm = None \<Longrightarrow> open_error rm = None \<Longrightarrow> read_error rm = Some e \<Longrightarrow>
   writer True rm cols row_data row_ora new_state =
     ([Error (msg_write @ e)], rm\<lparr>calls := calls rm @ [Authorize, OpenByKey, GetAllRecords]\<rparr>)"
  by (simp add: writer_def get_gspread_service_def authorize_def open_by_key_def
      get_all_records_def)

lemma writer_no_match_effect:
  assumes "\<not> some_match (py_str row_data) (py_str row_ora) (records_of (grid rm))"
  shows "grid (snd (writer gs rm cols row_data row_ora new_state)) = grid rm
         \<and> take (length (calls rm)) (calls (snd (writer gs rm cols row_data row_ora new_state)))
             = calls rm
         \<and> distinct (drop (length (calls rm))
               (calls (snd (writer gs rm cols row_data row_ora new_state))))
         \<and> set (drop (length (calls rm))
               (calls (snd (writer gs rm cols row_data row_ora new_state))))
             \<subseteq> {Authorize, OpenByKey, GetAllRecords}"
proof (cases gs)
  case False
  then show ?thesis by (simp add: writer_library_missing)
next
  case True
  show ?thesis
  proof (cases "auth_error rm")
    case (Some e)
    with True show ?thesis by (simp add: writer_auth_fails)
  next
    case a: None
    show ?thesis
    proof (cases "open_error rm")
      case (Some e)
      with True a show ?thesis by (simp add: writer_open_fails)
    next
      case b: None
      show ?thesis
      proof (cases "read_error rm")
        case (Some e)
        with True a b show ?thesis by (simp add: writer_read_fails)
      next
        case None
        with True a b assms show ?thesis by (simp add: writer_not_found)
      qed
    qed
  qed
qed

lemmas sample_eval =
  sample_remote_def records_of_def dict_of_def key_matches_def rec_get_def
  col_Data_def col_Ora_def col_Stato_def ascii_def some_match_def first_match_def
  transport_ok_def mark_done_def mark_partial_def mark_missed_def
























text \<open>
  C5. When no record of the sheet matches the key, the save leaves the sheet as it is
  whatever the mode and whichever remote step fails: it sends at most one request of
  each kind, none of them a write. When the remote steps succeed it reports that the
  row was not found, after exactly one read of the records.
\<close>

theorem writer_not_found_no_mutation:
  assumes "\<not> some_match (py_str row_data) (py_str row_ora) (records_of (grid rm))"
  shows "(let res = save_action m gs_available credential_on_disk rm cols row_data row_ora new_state
          in grid (snd res) = grid rm
             \<and> take (length (calls rm)) (calls (snd res)) = calls rm
             \<and> distinct (drop (length (calls rm)) (calls (snd res)))
             \<and> set (drop (length (calls rm)) (calls (snd res)))
                 \<subseteq> {Authorize, OpenByKey, GetAllRecords})
         \<and> (auth_error rm = None \<and> open_error rm = None \<and> read_error rm = None \<longrightarrow>
              save_action FULL_RW True True rm cols row_data row_ora new_state
                = ([Warning msg_non_trovato],
                   rm\<lparr>calls := calls rm @ [Authorize, OpenByKey, GetAllRecords]\<rparr>))"
proof -
  have "save_action m gs_available credential_on_disk rm cols row_data row_ora new_state
          = writer gs_available rm cols row_data row_ora new_state
        \<or> save_action m gs_available credential_on_disk rm cols row_data row_ora new_state
          = ([Warning msg_attiva], rm)"
    by (simp add: save_action_def)
  then show ?thesis
    using writer_no_match_effect [OF assms, of gs_available cols new_state]
      writer_not_found [OF _ _ _ assms, of cols new_state]
    by (auto simp: Let_def save_action_def)
qed

text \<open>
  C5, witness: a key that is not on the example sheet.
\<close>

theorem writer_not_found_no_mutation_witness:
  "\<not> some_match (ascii ''2026-11-05'') (ascii ''09:00'') (records_of (grid sample_remote))
   \<and> save_action FULL_RW True True sample_remote sample_cols
        (Str (ascii ''2026-11-05'')) (Str (ascii ''09:00'')) mark_done
       = ([Warning msg_non_trovato],
          sample_remote\<lparr>calls := [Authorize, OpenByKey, GetAllRecords]\<rparr>)"
proof -
  have a: "\<not> some_match (py_str (Str (ascii ''2026-11-05''))) (py_str (Str (ascii ''09:00'')))
             (records_of (grid sample_remote))"
    by (simp add: sample_eval)
  have b: "auth_error sample_remote = None \<and> open_error sample_remote = None
           \<and> read_error sample_remote = None \<and> calls sample_remote = []"
    by (simp add: sample_remote_def)
  show ?thesis
    using a b writer_not_found_no_mutation [OF a, of FULL_RW True True sample_cols mark_done]
    by simp
qed



subsection \<open>The views\<close>




























lemma to_datetime_None_iff:
  "to_datetime parse cs = None \<longleftrightarrow> \<not> list_all (\<lambda>c. parse c \<noteq> None) cs"
  by (induction cs) (auto split: option.splits)











lemma sample_df_Data:
  "column sample_df col_Data =
     Inr [Str (ascii ''2026-11-04''), Str (ascii ''2026-11-03''), Str (ascii ''2026-11-04''), Str []]"
  by (simp add: column_def positions_def sample_df_def cell_of_def col_Data_def col_Stato_def
      ascii_def upt_rec)

lemma sample_df_text_Data:
  "column sample_df_text col_Data = Inr [Str (ascii ''2026-11-04''), Str (ascii ''boh'')]"
  by (simp add: column_def positions_def sample_df_text_def cell_of_def col_Data_def col_Stato_def
      ascii_def upt_rec)

lemma iso_parse_samples:
  "iso_parse (Str (ascii ''2026-11-04'')) = Some (Day (2026, 11, 4))"
  "iso_parse (Str (ascii ''2026-11-03'')) = Some (Day (2026, 11, 3))"
  "iso_parse (Str []) = Some NaT"
  "iso_parse (Str (ascii ''boh'')) = None"
  by (simp_all add: iso_parse_def is_digit_def digit_val_def ascii_def)



lemma sample_scores:
  "punteggio_calcolato default_points sample_df = Inr [10, 5, 10, 0]"
  "punteggio_calcolato default_points sample_df_text = Inr [10, 5]"
  by (simp_all add: punteggio_calcolato_def column_def positions_def sample_df_def
      sample_df_text_def cell_of_def
      col_Data_def col_Stato_def ascii_def upt_rec scorer_def strip_def is_space_def
      mark_done_def mark_partial_def mark_missed_def default_points_def)




lemma oggi_parsed:
  "to_datetime parse cs = Some ps \<Longrightarrow>
   map fst (filter (\<lambda>(r, p). p = Parsed (Day today)) (zip rs (map Parsed ps)))
     = map fst (filter (\<lambda>rc. parse (snd rc) = Some (Day today)) (zip rs cs))"
proof (induction cs arbitrary: ps rs)
  case Nil
  then show ?case by simp
next
  case (Cons c cs)
  then obtain p ps' where ps: "ps = p # ps'" and p: "parse c = Some p"
    and rest: "to_datetime parse cs = Some ps'"
    by (auto split: option.splits)
  show ?case
  proof (cases rs)
    case Nil
    then show ?thesis by simp
  next
    case (Cons r rs')
    with Cons.IH [OF rest, of rs'] ps p show ?thesis by auto
  qed
qed

lemma oggi_raw: "filter (\<lambda>(r, p). p = Parsed q) (zip rs (map Raw cs)) = []"
proof (induction cs arbitrary: rs)
  case Nil
  then show ?case by simp
next
  case (Cons c cs)
  show ?case
  proof (cases rs)
    case Nil
    then show ?thesis by simp
  next
    case (Cons r rs')
    with Cons.IH [of rs'] show ?thesis by simp
  qed
qed

lemma to_datetime_the:
  "to_datetime parse cs = Some ps \<Longrightarrow> map (\<lambda>c. Parsed (the (parse c))) cs = map Parsed ps"
  by (induction cs arbitrary: ps) (auto split: option.splits)

text \<open>
  C6, as amended. For a table whose \<^verbatim>\<open>Data\<close> label selects one column: when every cell of
  the column parses, the today view holds exactly the rows whose date parses to the
  current date; when some cell does not parse, every row keeps its raw cell as the
  parsed date (opaque text) and the today view is empty.
\<close>

theorem today_view_whole_column:
  assumes "column df col_Data = Inr col"
  shows "oggi_df parse today df =
           Inr (if list_all (\<lambda>c. parse c \<noteq> None) col
                then map fst (filter (\<lambda>rc. parse (snd rc) = Some (Day today)) (zip (rows df) col))
                else [])
         \<and> data_parsed parse df =
           Inr (if list_all (\<lambda>c. parse c \<noteq> None) col
                then map (\<lambda>c. Parsed (the (parse c))) col
                else map Raw col)"
proof (cases "to_datetime parse col")
  case None
  then have "\<not> list_all (\<lambda>c. parse c \<noteq> None) col" by (simp add: to_datetime_None_iff)
  with None show ?thesis
    by (simp add: oggi_df_def data_parsed_def assms oggi_raw)
next
  case (Some ps)
  then have "list_all (\<lambda>c. parse c \<noteq> None) col"
    using to_datetime_None_iff [of parse col] by simp
  with Some show ?thesis
    by (simp add: oggi_df_def data_parsed_def assms oggi_parsed [OF Some] to_datetime_the [OF Some])
qed

text \<open>
  C6, witness: the two rows of the example dated today, out of four.
\<close>

theorem today_view_whole_column_witness:
  "column sample_df col_Data =
     Inr [Str (ascii ''2026-11-04''), Str (ascii ''2026-11-03''), Str (ascii ''2026-11-04''), Str []]
   \<and> oggi_df iso_parse (2026, 11, 4) sample_df
       = Inr [[Str (ascii ''2026-11-04''), Str mark_done], [Str (ascii ''2026-11-04''), Str mark_done]]"
proof -
  have r: "rows sample_df = [[Str (ascii ''2026-11-04''), Str mark_done],
                             [Str (ascii ''2026-11-03''), Str mark_partial],
                             [Str (ascii ''2026-11-04''), Str mark_done],
                             [Str [], Str mark_missed]]"
    by (simp add: sample_df_def)
  show ?thesis
    using sample_df_Data today_view_whole_column [OF sample_df_Data, of iso_parse "(2026, 11, 4)"]
    by (simp add: iso_parse_samples r)
qed

text \<open>
  C6 as stated fails: the first row's date parses to the current date, the second row's
  does not parse, and the today view is empty.
\<close>

theorem today_view_whole_column_counterexample:
  "iso_parse (Str (ascii ''2026-11-04'')) = Some (Day (2026, 11, 4))
   \<and> iso_parse (Str (ascii ''boh'')) = None
   \<and> column sample_df_text col_Data = Inr [Str (ascii ''2026-11-04''), Str (ascii ''boh'')]
   \<and> oggi_df iso_parse (2026, 11, 4) sample_df_text = Inr []"
proof -
  have r: "rows sample_df_text = [[Str (ascii ''2026-11-04''), Str mark_done],
                                  [Str (ascii ''boh''), Str mark_partial]]"
    by (simp add: sample_df_text_def)
  show ?thesis
    by (simp add: iso_parse_samples sample_df_text_Data oggi_df_def data_parsed_def r)
qed

subsection \<open>Data Loader and Exporter\<close>

lemma load_full_rw_result:
  "load_full_rw gs (Some json) rm =
     (case load_exception gs rm of
        Some e \<Rightarrow> (empty_frame, [Error (msg_auth @ e)], snd (snd (load_full_rw gs (Some json) rm)))
      | None \<Rightarrow> (frame_of_records (records_of (grid rm)), [],
                  rm\<lparr>calls := calls rm @ [Authorize, OpenByKey, GetAllRecords]\<rparr>))"
  by (cases gs; cases "auth_error rm"; cases "open_error rm"; cases "read_error rm")
     (simp_all add: load_full_rw_def load_exception_def get_gspread_service_def authorize_def
        open_by_key_def get_all_records_def)

lemma load_full_rw_grid: "grid (snd (snd (load_full_rw gs gsa_file rm))) = grid rm"
  by (cases gsa_file; cases gs; cases "auth_error rm"; cases "open_error rm"; cases "read_error rm")
     (simp_all add: load_full_rw_def get_gspread_service_def authorize_def
        open_by_key_def get_all_records_def)

text \<open>
  C8, as amended. In \<^verbatim>\<open>FULL_RW\<close> mode without an uploaded credential file the load
  returns the empty table with the notice asking for the file, and no error. With a
  file, the load returns the empty table and one error message, headed
  \<^verbatim>\<open>Errore autenticazione Google\<close> and carrying the exception's text, whenever a step of
  the \<^verbatim>\<open>try\<close> block fails: the client library was not imported (the text says so), the
  credential is rejected, the document cannot be opened or read; otherwise it returns
  the records as a table and no message. The sheet is never changed.
\<close>

theorem load_full_rw_reports:
  "load_full_rw gs_available None rm = (empty_frame, [Info msg_carica], rm)
   \<and> fst (load_full_rw gs_available (Some json) rm)
       = (case load_exception gs_available rm of
            Some e \<Rightarrow> empty_frame
          | None \<Rightarrow> frame_of_records (records_of (grid rm)))
   \<and> fst (snd (load_full_rw gs_available (Some json) rm))
       = (case load_exception gs_available rm of
            Some e \<Rightarrow> [Error (msg_auth @ e)]
          | None \<Rightarrow> [])
   \<and> load_exception False rm = Some msg_gspread
   \<and> load_exception True (rm\<lparr>auth_error := Some e\<rparr>) = Some e
   \<and> grid (snd (snd (load_full_rw gs_available gsa_file rm))) = grid rm"
proof -
  have a: "load_full_rw gs_available None rm = (empty_frame, [Info msg_carica], rm)"
    by (simp add: load_full_rw_def)
  have b: "fst (load_full_rw gs_available (Some json) rm)
       = (case load_exception gs_available rm of
            Some e \<Rightarrow> empty_frame
          | None \<Rightarrow> frame_of_records (records_of (grid rm)))"
    by (subst load_full_rw_result) (simp split: option.splits)
  have c: "fst (snd (load_full_rw gs_available (Some json) rm))
       = (case load_exception gs_available rm of
            Some e \<Rightarrow> [Error (msg_auth @ e)]
          | None \<Rightarrow> [])"
    by (subst load_full_rw_result) (simp split: option.splits)
  show ?thesis
    using a b c by (simp add: load_exception_def load_full_rw_grid)
qed

text \<open>
  C8 as stated fails: with no credential file the load reports no error, whether the
  client library was imported or not; the user gets a notice.
\<close>

theorem load_full_rw_no_credential_counterexample:
  "load_full_rw False None sample_remote = (empty_frame, [Info msg_carica], sample_remote)
   \<and> load_full_rw True None sample_remote = (empty_frame, [Info msg_carica], sample_remote)"
  by (simp add: load_full_rw_def)

lemma sample_raw_renamed: "renamed_columns sample_raw = [col_Ora, col_Data]"
  by (simp add: renamed_columns_def sample_raw_def df_empty_def canon_name_def canon_def
      lower_def lower_cp_def strip_def is_space_def col_Ora_def col_Data_def ascii_def)

lemma sample_raw_missing:
  "missing_cols sample_raw = [col_Giorno, col_Attivita, col_Materia, col_Tipo, col_Stato,
                              col_Punteggio, col_Note]"
  unfolding missing_cols_def sample_raw_renamed
  by (simp add: expected_cols_def col_Data_def col_Giorno_def col_Ora_def col_Attivita_def
      col_Materia_def col_Tipo_def col_Stato_def col_Punteggio_def col_Note_def ascii_def)

text \<open>
  C7, as amended. The export is a workbook with one sheet, named \<^verbatim>\<open>Sheet1\<close>, holding the
  normalized table as it is before the score column is added: a header row with the
  source columns in their order, under the names the renaming gives them, followed by
  the expected columns that were missing; then one row per row of the raw table, each
  cell written as it is stored, the added cells empty. The datetime format of the
  writer is \<^verbatim>\<open>yyyy-mm-dd\<close>.
\<close>

theorem exporter_sheet:
  "exporter raw =
     \<lparr>sheets = [(ascii ''Sheet1'',
                 map XText (renamed_columns raw @ missing_cols raw)
                 # map (\<lambda>r. map to_xcell r @ replicate (length (missing_cols raw)) (XText []))
                     (rows raw))],
      datetime_format = ascii ''yyyy-mm-dd''\<rparr>
   \<and> length (sheets (exporter raw)) = 1
   \<and> length (snd (hd (sheets (exporter raw)))) = Suc (length (rows raw))"
  by (simp add: exporter_def to_excel_def normalizer_columns_eq normalizer_rows_eq comp_def
      map_replicate)

text \<open>
  C7 as stated fails: a raw table with the columns \<^verbatim>\<open>Ora\<close> and \<^verbatim>\<open>Data\<close> is exported with
  nine columns, and its date text \<^verbatim>\<open>03/11/2026\<close> is written unchanged.
\<close>

theorem exporter_sheet_counterexample:
  "columns sample_raw = [ascii ''Ora'', ascii ''Data'']
   \<and> hd (snd (hd (sheets (exporter sample_raw))))
       = map XText [col_Ora, col_Data, col_Giorno, col_Attivita, col_Materia, col_Tipo, col_Stato,
                    col_Punteggio, col_Note]
   \<and> length (hd (snd (hd (sheets (exporter sample_raw))))) \<noteq> length (columns sample_raw)
   \<and> snd (hd (sheets (exporter sample_raw))) ! 1 ! 1 = XText (ascii ''03/11/2026'')
   \<and> \<not> is_yyyy_mm_dd (ascii ''03/11/2026'')"
proof -
  have r: "rows sample_raw = [[Str (ascii ''09:00''), Str (ascii ''03/11/2026'')]]"
    and c: "columns sample_raw = [ascii ''Ora'', ascii ''Data'']"
    by (simp_all add: sample_raw_def)
  have n: "\<not> is_yyyy_mm_dd (ascii ''03/11/2026'')"
    by (simp add: ascii_def is_digit_def)
  have e: "exporter sample_raw =
     \<lparr>sheets = [(ascii ''Sheet1'',
                 map XText (renamed_columns sample_raw @ missing_cols sample_raw)
                 # map (\<lambda>r. map to_xcell r @ replicate (length (missing_cols sample_raw)) (XText []))
                     (rows sample_raw))],
      datetime_format = ascii ''yyyy-mm-dd''\<rparr>"
    by (simp add: exporter_def to_excel_def normalizer_columns_eq normalizer_rows_eq comp_def
      map_replicate)
  show ?thesis
    unfolding e sample_raw_renamed sample_raw_missing r c using n by simp
qed

end
